theory Spec2Isabelle
  imports Main "HOL-Library.Multiset"
begin

section \<open>Group libraries endpoints (seahub/api2/endpoints/group_libraries.py)\<close>

text \<open>
  The module is a request-validation and permission-check layer over the Seafile and
  Ccnet services. The three handlers \<open>GroupLibraries.get\<close>, \<open>GroupLibraries.post\<close> and
  \<open>GroupLibrary.delete\<close> are embedded as functions that take the world before the
  request and return the handler's outcome together with the world after it. Whatever
  the handlers call but do not define (the service RPCs, the group and share
  predicates, the formatting helpers, the configuration flag) is a field of an
  environment record, so every theorem holds for any behaviour of those collaborators.
  A call to a collaborator is taken to return: the handlers catch nothing, and a fault
  raised inside a service is not an outcome this theory describes. The one exception a
  handler raises by itself, an attribute read on \<open>None\<close> after \<open>get_repo\<close>, is one.
\<close>

subsection \<open>Data\<close>

text \<open>
  The attributes the handlers read from the objects returned by \<open>seafile_api\<close>.
  \<open>get_repo\<close> results are read through \<open>id\<close>, \<open>name\<close>, \<open>last_modified\<close>, \<open>size\<close>,
  \<open>encrypted\<close>, \<open>last_modifier\<close>, \<open>origin_repo_id\<close>, \<open>origin_path\<close>; group repository
  listings through \<open>repo_id\<close>, \<open>name\<close>, \<open>last_modified\<close>, \<open>permission\<close>, \<open>size\<close>,
  \<open>encrypted\<close>, \<open>user\<close>, \<open>last_modifier\<close>. Both are instances of one Python class, hence
  one record. Each field is the attribute's name after the prefix \<open>r_\<close>. An attribute
  that may be \<open>None\<close> is an option.
\<close>

record repo =
  r_id :: string
  r_repo_id :: string
  r_name :: string
  r_last_modified :: int
  r_permission :: string
  r_size :: int
  r_encrypted :: bool
  r_user :: string
  r_last_modifier :: string
  r_origin_repo_id :: "string option"
  r_origin_path :: "string option"

text \<open>
  What the handlers read from the request: \<open>request.user.username\<close>,
  \<open>request.user.permissions.can_add_repo()\<close>, \<open>request.user.org.org_id\<close> (read only
  when \<open>is_org_context(request)\<close> holds) and the dictionary \<open>request.data\<close>. The
  fields of \<open>request.user\<close> carry the prefix \<open>user_\<close>.
\<close>

record request =
  user_username :: string
  user_can_add_repo :: bool
  user_org_id :: int
  data :: "string \<rightharpoonup> string"

text \<open>JSON values and response bodies. A Python dictionary is a map from its keys.\<close>

datatype json = JStr string | JInt int | JBool bool

type_synonym dict = "string \<rightharpoonup> json"

datatype body = JList "dict list" | JDict dict

text \<open>
  \<open>Response(x)\<close> is the 200 response with body \<open>x\<close>; \<open>api_error(code, msg)\<close> is the
  error response with that HTTP status and message.
\<close>

datatype response = Response body | api_error nat string

abbreviation HTTP_400_BAD_REQUEST :: nat where "HTTP_400_BAD_REQUEST \<equiv> 400"
abbreviation HTTP_403_FORBIDDEN :: nat where "HTTP_403_FORBIDDEN \<equiv> 403"
abbreviation HTTP_404_NOT_FOUND :: nat where "HTTP_404_NOT_FOUND \<equiv> 404"

text \<open>The error taxonomy of the specification, as the responses the handlers build.\<close>

definition PermissionDenied :: response where
  "PermissionDenied = api_error HTTP_403_FORBIDDEN ''Permission denied.''"

definition FeatureDisabled :: response where
  "FeatureDisabled = api_error HTTP_403_FORBIDDEN ''NOT allow to create encrypted library.''"

text \<open>An exception that leaves a handler uncaught.\<close>

datatype exn = AttributeError

subsection \<open>The world: services, the share permission table, the call log\<close>

text \<open>
  Every side-effecting call a handler makes is appended to a log, in call order, with
  its arguments.
\<close>

datatype call =
    Create_repo string string string "string option"
  | Create_org_repo string string string "string option" int
  | Set_group_repo string int string string
  | Add_org_group_repo string int int string string
  | Repo_created int string string string string
  | Unset_group_repo string int string
  | Del_org_group_repo string int int
  | Delete_share_permission string int
  | Send_perm_audit_msg string string int string string string

text \<open>
  The world is the state \<open>'w\<close> of the Seafile and Ccnet services (opaque), the rows
  (repo id, group id, permission) of the ExtraGroupsSharePermission table, and the log.
\<close>

record 'w world =
  service :: 'w
  share_perms :: "(string \<times> int \<times> string) list"
  calls :: "call list"

type_synonym 'w result = "(exn + response) \<times> 'w world"

text \<open>
  The collaborators, as parameters. Readers take the service state, writers map it.
  \<open>get_group\<close> tells whether a group exists; \<open>is_repo_admin\<close> may also consult the
  share permission table; \<open>repo_created_receivers\<close> is what the receivers of the
  \<open>repo_created\<close> signal do to the services.
\<close>

record 'w env =
  get_group :: "'w \<Rightarrow> int \<Rightarrow> bool"
  is_group_member :: "'w \<Rightarrow> int \<Rightarrow> string \<Rightarrow> bool"
  is_group_admin :: "'w \<Rightarrow> int \<Rightarrow> string \<Rightarrow> bool"
  is_repo_admin :: "'w \<Rightarrow> (string \<times> int \<times> string) list \<Rightarrow> string \<Rightarrow> string \<Rightarrow> bool"
  is_org_context :: "request \<Rightarrow> bool"
  is_valid_dirent_name :: "string \<Rightarrow> bool"
  ENABLE_ENCRYPTED_LIBRARY :: bool
  timestamp_to_isoformat_timestr :: "int \<Rightarrow> string"
  email2nickname :: "string \<Rightarrow> string"
  email2contact_email :: "string \<Rightarrow> string"
  get_repo :: "'w \<Rightarrow> string \<Rightarrow> repo option"
  get_repo_owner :: "'w \<Rightarrow> string \<Rightarrow> string option"
  get_repos_by_group :: "'w \<Rightarrow> int \<Rightarrow> repo list"
  get_org_group_repos :: "'w \<Rightarrow> int \<Rightarrow> int \<Rightarrow> repo list"
  is_org_group :: "'w \<Rightarrow> int \<Rightarrow> bool"
  get_org_id_by_group :: "'w \<Rightarrow> int \<Rightarrow> int"
  create_repo :: "string \<Rightarrow> string \<Rightarrow> string \<Rightarrow> string option \<Rightarrow> 'w \<Rightarrow> string \<times> 'w"
  create_org_repo :: "string \<Rightarrow> string \<Rightarrow> string \<Rightarrow> string option \<Rightarrow> int \<Rightarrow> 'w \<Rightarrow> string \<times> 'w"
  set_group_repo :: "string \<Rightarrow> int \<Rightarrow> string \<Rightarrow> string \<Rightarrow> 'w \<Rightarrow> 'w"
  add_org_group_repo :: "string \<Rightarrow> int \<Rightarrow> int \<Rightarrow> string \<Rightarrow> string \<Rightarrow> 'w \<Rightarrow> 'w"
  repo_created_receivers :: "int \<Rightarrow> string \<Rightarrow> string \<Rightarrow> string \<Rightarrow> string \<Rightarrow> 'w \<Rightarrow> 'w"
  unset_group_repo :: "string \<Rightarrow> int \<Rightarrow> string \<Rightarrow> 'w \<Rightarrow> 'w"
  del_org_group_repo :: "string \<Rightarrow> int \<Rightarrow> int \<Rightarrow> 'w \<Rightarrow> 'w"

text \<open>A service call is logged and applied to the service state.\<close>

definition invoke :: "call \<Rightarrow> ('w \<Rightarrow> 'w) \<Rightarrow> 'w world \<Rightarrow> 'w world" where
  "invoke c f w = w\<lparr>service := f (service w), calls := calls w @ [c]\<rparr>"

text \<open>
  \<open>send_perm_audit_msg\<close> publishes a message and touches no state the handlers read:
  it only extends the log.
\<close>

definition send_perm_audit_msg ::
  "string \<Rightarrow> string \<Rightarrow> int \<Rightarrow> string \<Rightarrow> string \<Rightarrow> string \<Rightarrow> 'w world \<Rightarrow> 'w world" where
  "send_perm_audit_msg etype from_user to repo path perm w =
     w\<lparr>calls := calls w @ [Send_perm_audit_msg etype from_user to repo path perm]\<rparr>"

text \<open>
  Modelled from the spec: \<open>ExtraGroupsSharePermission.objects.delete_share_permission\<close>
  (seahub.share.models) is not part of the sources. The specification says it deletes
  the ExtraGroupsSharePermission record of the (repo id, group id) pair and that a
  second call is a no-op.
\<close>

definition delete_share_permission :: "string \<Rightarrow> int \<Rightarrow> 'w world \<Rightarrow> 'w world" where
  "delete_share_permission rid gid w =
     w\<lparr>share_perms := filter (\<lambda>(r, g, p). \<not> (r = rid \<and> g = gid)) (share_perms w),
       calls := calls w @ [Delete_share_permission rid gid]\<rparr>"

text \<open>
  Modelled from the spec: the decorator \<open>api_check_group\<close> (seahub.api2.endpoints.utils)
  is not part of the sources. The specification says that the target group must exist
  before any permission logic runs and that a missing group short-circuits with a
  not-found signal. The URL's group id reaches the handler as an integer, so the
  handlers' \<open>int(group_id)\<close> is the identity.
\<close>

definition api_check_group ::
  "'w env \<Rightarrow> (int \<Rightarrow> 'w world \<Rightarrow> 'w result) \<Rightarrow> int \<Rightarrow> 'w world \<Rightarrow> 'w result" where
  "api_check_group env func group_id w =
     (if \<not> get_group env (service w) group_id
      then (Inr (api_error HTTP_404_NOT_FOUND ''Group not found.''), w)
      else func group_id w)"

subsection \<open>Python built-ins\<close>

text \<open>Python 2's \<open>cmp\<close> on integers.\<close>

definition cmp :: "int \<Rightarrow> int \<Rightarrow> int" where
  "cmp x y = (if x < y then - 1 else if x = y then 0 else 1)"

text \<open>
  \<open>list.sort(cmpfunc)\<close> is a stable sort by the comparison function: an element goes
  before the first element it does not compare greater than, elements taken from the
  right, so equal elements keep their order.
\<close>

fun insert_cmp :: "('a \<Rightarrow> 'a \<Rightarrow> int) \<Rightarrow> 'a \<Rightarrow> 'a list \<Rightarrow> 'a list" where
  "insert_cmp c x [] = [x]"
| "insert_cmp c x (y # ys) = (if c x y \<le> 0 then x # y # ys else y # insert_cmp c x ys)"

definition sort_cmp :: "('a \<Rightarrow> 'a \<Rightarrow> int) \<Rightarrow> 'a list \<Rightarrow> 'a list" where
  "sort_cmp c xs = foldr (insert_cmp c) xs []"

text \<open>\<open>x or d\<close> for a string attribute that may be \<open>None\<close>: \<open>None\<close> and \<open>''\<close> are falsy.\<close>

fun py_or :: "string option \<Rightarrow> string \<Rightarrow> string" where
  "py_or None d = d"
| "py_or (Some s) d = (if s = [] then d else s)"

text \<open>Truth value of an optional string (\<open>if password\<close>).\<close>

fun truthy :: "string option \<Rightarrow> bool" where
  "truthy None = False"
| "truthy (Some s) = (s \<noteq> [])"

text \<open>\<open>d.get(key, default)\<close>.\<close>

definition dict_get :: "(string \<rightharpoonup> 'a) \<Rightarrow> string \<Rightarrow> 'a \<Rightarrow> 'a" where
  "dict_get d k dflt = (case d k of None \<Rightarrow> dflt | Some v \<Rightarrow> v)"

subsection \<open>The handlers\<close>

definition get_group_repo_info :: "'w env \<Rightarrow> repo \<Rightarrow> dict" where
  "get_group_repo_info env group_repo =
     (let repo_owner = r_user group_repo;
          modifier = r_last_modifier group_repo
      in [''repo_id'' \<mapsto> JStr (r_repo_id group_repo),
          ''repo_name'' \<mapsto> JStr (r_name group_repo),
          ''mtime'' \<mapsto> JStr (timestamp_to_isoformat_timestr env (r_last_modified group_repo)),
          ''permission'' \<mapsto> JStr (r_permission group_repo),
          ''size'' \<mapsto> JInt (r_size group_repo),
          ''encrypted'' \<mapsto> JBool (r_encrypted group_repo),
          ''owner_email'' \<mapsto> JStr repo_owner,
          ''owner_name'' \<mapsto> JStr (email2nickname env repo_owner),
          ''owner_contact_name'' \<mapsto> JStr (email2contact_email env repo_owner),
          ''modifier_email'' \<mapsto> JStr modifier,
          ''modifier_name'' \<mapsto> JStr (email2nickname env modifier),
          ''modifier_contact_email'' \<mapsto> JStr (email2contact_email env modifier)])"

definition GroupLibraries_get :: "'w env \<Rightarrow> request \<Rightarrow> int \<Rightarrow> 'w world \<Rightarrow> 'w result" where
  "GroupLibraries_get env request =
     api_check_group env (\<lambda>group_id w.
       if \<not> is_group_member env (service w) group_id (user_username request)
       then (Inr (api_error HTTP_403_FORBIDDEN ''Permission denied.''), w)
       else
         let group_repos =
               (if is_org_context env request
                then get_org_group_repos env (service w) (user_org_id request) group_id
                else get_repos_by_group env (service w) group_id);
             group_repos = sort_cmp (\<lambda>x y. cmp (r_last_modified y) (r_last_modified x)) group_repos;
             result = map (get_group_repo_info env) group_repos
         in (Inr (Response (JList result)), w))"

definition GroupLibraries_post :: "'w env \<Rightarrow> request \<Rightarrow> int \<Rightarrow> 'w world \<Rightarrow> 'w result" where
  "GroupLibraries_post env request =
     api_check_group env (\<lambda>group_id w.
       case data request ''repo_name'' of
         None \<Rightarrow> (Inr (api_error HTTP_400_BAD_REQUEST ''repo_name invalid.''), w)
       | Some repo_name \<Rightarrow>
       if repo_name = [] \<or> \<not> is_valid_dirent_name env repo_name
       then (Inr (api_error HTTP_400_BAD_REQUEST ''repo_name invalid.''), w)
       else
       let password = data request ''password'' in
       if truthy password \<and> \<not> ENABLE_ENCRYPTED_LIBRARY env
       then (Inr (api_error HTTP_403_FORBIDDEN ''NOT allow to create encrypted library.''), w)
       else
       let permission = dict_get (data request) ''permission'' ''rw'' in
       if permission \<notin> {''r'', ''rw''}
       then (Inr (api_error HTTP_400_BAD_REQUEST ''permission invalid.''), w)
       else
       if \<not> user_can_add_repo request
       then (Inr (api_error HTTP_403_FORBIDDEN ''Permission denied.''), w)
       else
       if \<not> is_group_member env (service w) group_id (user_username request)
       then (Inr (api_error HTTP_403_FORBIDDEN ''Permission denied.''), w)
       else
       let username = user_username request;
           (org_id, repo_id, w) =
             (if is_org_context env request
              then
                let org_id = user_org_id request;
                    (repo_id, s) = create_org_repo env repo_name '''' username password org_id (service w);
                    w = w\<lparr>service := s,
                          calls := calls w @ [Create_org_repo repo_name '''' username password org_id]\<rparr>;
                    w = invoke (Add_org_group_repo repo_id org_id group_id username permission)
                          (add_org_group_repo env repo_id org_id group_id username permission) w
                in (org_id, repo_id, w)
              else
                let (repo_id, s) = create_repo env repo_name '''' username password (service w);
                    w = w\<lparr>service := s,
                          calls := calls w @ [Create_repo repo_name '''' username password]\<rparr>;
                    w = invoke (Set_group_repo repo_id group_id username permission)
                          (set_group_repo env repo_id group_id username permission) w
                in (- 1, repo_id, w));
           library_template = dict_get (data request) ''library_template'' '''';
           w = invoke (Repo_created org_id username repo_id repo_name library_template)
                 (repo_created_receivers env org_id username repo_id repo_name library_template) w
       in (case get_repo env (service w) repo_id of
            None \<Rightarrow> (Inl AttributeError, w)
          | Some repo \<Rightarrow>
              let modifier = r_last_modifier repo
              in (Inr (Response (JDict
                   [''repo_id'' \<mapsto> JStr (r_id repo),
                    ''repo_name'' \<mapsto> JStr (r_name repo),
                    ''mtime'' \<mapsto> JStr (timestamp_to_isoformat_timestr env (r_last_modified repo)),
                    ''permission'' \<mapsto> JStr permission,
                    ''size'' \<mapsto> JInt (r_size repo),
                    ''encrypted'' \<mapsto> JBool (r_encrypted repo),
                    ''owner_email'' \<mapsto> JStr username,
                    ''owner_name'' \<mapsto> JStr (email2nickname env username),
                    ''owner_contact_name'' \<mapsto> JStr (email2contact_email env username),
                    ''modifier_email'' \<mapsto> JStr modifier,
                    ''modifier_name'' \<mapsto> JStr (email2nickname env modifier),
                    ''modifier_contact_email'' \<mapsto> JStr (email2contact_email env modifier)])), w)))"

definition GroupLibrary_delete ::
  "'w env \<Rightarrow> request \<Rightarrow> int \<Rightarrow> string \<Rightarrow> 'w world \<Rightarrow> 'w result" where
  "GroupLibrary_delete env request group_id0 repo_id =
     api_check_group env (\<lambda>group_id w.
       case get_repo env (service w) repo_id of
         None \<Rightarrow> (Inr (api_error HTTP_404_NOT_FOUND (''Library '' @ repo_id @ '' not found.'')), w)
       | Some repo \<Rightarrow>
       let username = user_username request;
           repo_owner = get_repo_owner env (service w) repo_id
       in
       if \<not> is_group_admin env (service w) group_id username \<and>
          repo_owner \<noteq> Some username \<and>
          \<not> is_repo_admin env (service w) (share_perms w) username repo_id
       then (Inr (api_error HTTP_403_FORBIDDEN ''Permission denied.''), w)
       else
       let w = (if is_org_group env (service w) group_id
                then
                  let org_id = get_org_id_by_group env (service w) group_id
                  in invoke (Del_org_group_repo repo_id org_id group_id)
                       (del_org_group_repo env repo_id org_id group_id) w
                else
                  invoke (Unset_group_repo repo_id group_id username)
                    (unset_group_repo env repo_id group_id username) w);
           w = delete_share_permission repo_id group_id w
       in (case get_repo env (service w) repo_id of
            None \<Rightarrow> (Inl AttributeError, w)
          | Some repo \<Rightarrow>
              let origin_repo_id = py_or (r_origin_repo_id repo) repo_id;
                  origin_path = py_or (r_origin_path repo) ''/'';
                  w = send_perm_audit_msg ''delete-repo-perm'' username group_id
                        origin_repo_id origin_path '''' w
              in (Inr (Response (JDict [''success'' \<mapsto> JBool True])), w))) group_id0"


subsection \<open>Vocabulary for the statements\<close>

text \<open>Which logged calls are permission-audit messages, and which unbind a repository.\<close>

fun is_perm_audit_msg :: "call \<Rightarrow> bool" where
  "is_perm_audit_msg (Send_perm_audit_msg etype from_user to repo path perm) = True"
| "is_perm_audit_msg c = False"

fun is_unbind :: "call \<Rightarrow> bool" where
  "is_unbind (Unset_group_repo rid gid owner) = True"
| "is_unbind (Del_org_group_repo rid org gid) = True"
| "is_unbind c = False"

text \<open>
  The unbinding step of \<open>GroupLibrary.delete\<close> (the \<open>if ccnet_api.is_org_group\<close>
  statement) on its own: the call it makes from service state \<open>s\<close>, and the service
  state it leaves. The second \<open>get_repo\<close> of the handler reads the latter.
\<close>

definition unbind_call :: "'w env \<Rightarrow> request \<Rightarrow> int \<Rightarrow> string \<Rightarrow> 'w \<Rightarrow> call" where
  "unbind_call env request group_id repo_id s =
     (if is_org_group env s group_id
      then Del_org_group_repo repo_id (get_org_id_by_group env s group_id) group_id
      else Unset_group_repo repo_id group_id (user_username request))"

definition unbound :: "'w env \<Rightarrow> request \<Rightarrow> int \<Rightarrow> string \<Rightarrow> 'w \<Rightarrow> 'w" where
  "unbound env request group_id repo_id s =
     (if is_org_group env s group_id
      then del_org_group_repo env repo_id (get_org_id_by_group env s group_id) group_id s
      else unset_group_repo env repo_id group_id (user_username request) s)"

text \<open>A key of the dictionary a handler answered with, if it answered with one.\<close>

definition response_field :: "'w result \<Rightarrow> string \<Rightarrow> json option" where
  "response_field res k =
     (case fst res of Inr (Response (JDict d)) \<Rightarrow> d k | _ \<Rightarrow> None)"

subsection \<open>A concrete service\<close>

text \<open>
  One instance of the environment, on which the theorems below are exercised: group 42
  with members alice, bob and carol (carol its admin), two libraries and two
  sub-libraries of \<open>lib1\<close>. Unsharing a sub-library from its last group drops the
  sub-library's record.
\<close>

record svc =
  repos :: "repo list"
  group_repos :: "(int \<times> string) list"

definition members42 :: "string list" where
  "members42 = [''alice@x.com'', ''bob@x.com'', ''carol@x.com'']"

definition new_repo :: "string \<Rightarrow> string \<Rightarrow> repo" where
  "new_repo repo_name owner =
     \<lparr>r_id = ''id-'' @ repo_name, r_repo_id = ''id-'' @ repo_name, r_name = repo_name,
      r_last_modified = 400, r_permission = [], r_size = 0, r_encrypted = False,
      r_user = owner, r_last_modifier = owner, r_origin_repo_id = None, r_origin_path = None\<rparr>"

definition demo_env :: "svc env" where
  "demo_env =
     \<lparr>get_group = (\<lambda>s g. g = 42),
      is_group_member = (\<lambda>s g u. g = 42 \<and> u \<in> set members42),
      is_group_admin = (\<lambda>s g u. g = 42 \<and> u = ''carol@x.com''),
      is_repo_admin = (\<lambda>s perms u rid. (rid, 42, ''admin'') \<in> set perms \<and> u \<in> set members42),
      is_org_context = (\<lambda>request. False),
      is_valid_dirent_name = (\<lambda>n. CHR ''/'' \<notin> set n),
      ENABLE_ENCRYPTED_LIBRARY = False,
      timestamp_to_isoformat_timestr = (\<lambda>t. if t = 0 then ''1970-01-01T00:00:00'' else ''later''),
      email2nickname = takeWhile (\<lambda>c. c \<noteq> CHR ''@''),
      email2contact_email = (\<lambda>e. e),
      get_repo = (\<lambda>s rid. find (\<lambda>r. r_id r = rid) (repos s)),
      get_repo_owner = (\<lambda>s rid. map_option r_user (find (\<lambda>r. r_id r = rid) (repos s))),
      get_repos_by_group = (\<lambda>s g. filter (\<lambda>r. (g, r_id r) \<in> set (group_repos s)) (repos s)),
      get_org_group_repos = (\<lambda>s org g. []),
      is_org_group = (\<lambda>s g. False),
      get_org_id_by_group = (\<lambda>s g. - 1),
      create_repo = (\<lambda>repo_name desc owner password s.
        (''id-'' @ repo_name, s\<lparr>repos := repos s @ [new_repo repo_name owner]\<rparr>)),
      create_org_repo = (\<lambda>repo_name desc owner password org s.
        (''id-'' @ repo_name, s\<lparr>repos := repos s @ [new_repo repo_name owner]\<rparr>)),
      set_group_repo = (\<lambda>rid g owner perm s. s\<lparr>group_repos := (g, rid) # group_repos s\<rparr>),
      add_org_group_repo = (\<lambda>rid org g owner perm s. s\<lparr>group_repos := (g, rid) # group_repos s\<rparr>),
      repo_created_receivers = (\<lambda>org creator rid repo_name template s. s),
      unset_group_repo = (\<lambda>rid g owner s.
        s\<lparr>group_repos := filter (\<lambda>b. b \<noteq> (g, rid)) (group_repos s),
          repos := filter (\<lambda>r. \<not> (r_id r = rid \<and> r_origin_repo_id r \<noteq> None
                                   \<and> \<not> list_ex (\<lambda>b. snd b = rid \<and> fst b \<noteq> g) (group_repos s)))
                     (repos s)\<rparr>),
      del_org_group_repo = (\<lambda>rid org g s.
        s\<lparr>group_repos := filter (\<lambda>b. b \<noteq> (g, rid)) (group_repos s)\<rparr>)\<rparr>"

text \<open>
  The same service with a receiver of the \<open>repo_created\<close> signal that provisions the
  new library under a system account, which the service then records as the library's
  last modifier.
\<close>

definition template_env :: "svc env" where
  "template_env =
     demo_env\<lparr>repo_created_receivers := (\<lambda>org creator rid repo_name template s.
       s\<lparr>repos := map (\<lambda>r. if r_id r = rid then r\<lparr>r_last_modifier := ''system''\<rparr> else r)
                    (repos s)\<rparr>)\<rparr>"

definition lib :: "string \<Rightarrow> int \<Rightarrow> string \<Rightarrow> string option \<Rightarrow> string option \<Rightarrow> repo" where
  "lib rid t owner origin path =
     \<lparr>r_id = rid, r_repo_id = rid, r_name = rid, r_last_modified = t, r_permission = ''rw'',
      r_size = 0, r_encrypted = False, r_user = owner, r_last_modifier = owner,
      r_origin_repo_id = origin, r_origin_path = path\<rparr>"

definition w0 :: "svc world" where
  "w0 = \<lparr>service =
           \<lparr>repos = [lib ''lib1'' 100 ''alice@x.com'' None None,
                     lib ''lib2'' 300 ''bob@x.com'' None None,
                     lib ''sub1'' 200 ''alice@x.com'' (Some ''lib1'') (Some ''/docs''),
                     lib ''sub2'' 200 ''alice@x.com'' (Some ''lib1'') (Some ''/pics'')],
            group_repos = [(42, ''lib1''), (42, ''lib2''), (42, ''sub1''), (42, ''sub2''),
                           (7, ''sub2'')]\<rparr>,
         share_perms = [(''lib2'', 42, ''admin''), (''lib1'', 42, ''rw''), (''lib2'', 7, ''rw'')],
         calls = []\<rparr>"

text \<open>A request of user \<open>u\<close> with the given capability and request data.\<close>

definition req :: "string \<Rightarrow> bool \<Rightarrow> (string \<times> string) list \<Rightarrow> request" where
  "req u can_add kvs =
     \<lparr>user_username = u, user_can_add_repo = can_add, user_org_id = - 1, data = map_of kvs\<rparr>"

lemmas demo = demo_env_def template_env_def w0_def req_def lib_def members42_def new_repo_def

lemmas handlers = api_check_group_def invoke_def delete_share_permission_def
  send_perm_audit_msg_def dict_get_def

section \<open>Listing\<close>



subsection \<open>The comparison sort\<close>

lemma cmp_le_0: "cmp a b \<le> 0 \<longleftrightarrow> a \<le> b"
  by (simp add: cmp_def)

lemma mset_insert_cmp: "mset (insert_cmp c x ys) = add_mset x (mset ys)"
  by (induction ys) auto

lemma mset_sort_cmp: "mset (sort_cmp c xs) = mset xs"
  unfolding sort_cmp_def by (induction xs) (auto simp: mset_insert_cmp)

lemma set_insert_cmp: "set (insert_cmp c x ys) = insert x (set ys)"
  by (induction ys) auto

lemma desc_insert_cmp:
  "sorted_wrt (\<lambda>a b. f b \<le> (f a :: int)) ys \<Longrightarrow>
   sorted_wrt (\<lambda>a b. f b \<le> f a) (insert_cmp (\<lambda>x y. cmp (f y) (f x)) x ys)"
  by (induction ys) (auto simp: cmp_le_0 set_insert_cmp)

lemma desc_sort_cmp:
  "sorted_wrt (\<lambda>a b. f b \<le> (f a :: int)) (sort_cmp (\<lambda>x y. cmp (f y) (f x)) xs)"
  unfolding sort_cmp_def by (induction xs) (auto intro: desc_insert_cmp)

text \<open>
  C3. The list of a successful list operation is the projection of the group's
  repositories (all of them, each once) arranged by last-modified timestamp,
  descending: the record at index i carries the formatted timestamp of the i-th
  repository, and for i < j the timestamp at i is at least the timestamp at j.
\<close>

theorem list_sorted_by_mtime_desc:
  assumes "fst (GroupLibraries_get env request group_id w) = Inr (Response (JList result))"
  shows "\<exists>rs. result = map (get_group_repo_info env) rs
            \<and> mset rs = mset (if is_org_context env request
                               then get_org_group_repos env (service w) (user_org_id request) group_id
                               else get_repos_by_group env (service w) group_id)
            \<and> (\<forall>i < length result. (result ! i) ''mtime''
                   = Some (JStr (timestamp_to_isoformat_timestr env (r_last_modified (rs ! i)))))
            \<and> (\<forall>i j. i < j \<and> j < length result
                   \<longrightarrow> r_last_modified (rs ! i) \<ge> r_last_modified (rs ! j))"
proof -
  let ?src = "if is_org_context env request
              then get_org_group_repos env (service w) (user_org_id request) group_id
              else get_repos_by_group env (service w) group_id"
  let ?rs = "sort_cmp (\<lambda>x y. cmp (r_last_modified y) (r_last_modified x)) ?src"
  from assms have res: "result = map (get_group_repo_info env) ?rs"
    by (auto simp add: GroupLibraries_get_def api_check_group_def Let_def split: if_splits)
  have perm: "mset ?rs = mset ?src"
    by (rule mset_sort_cmp)
  have mt: "\<forall>i < length result. (result ! i) ''mtime''
                   = Some (JStr (timestamp_to_isoformat_timestr env (r_last_modified (?rs ! i))))"
    by (simp add: res get_group_repo_info_def Let_def)
  have "sorted_wrt (\<lambda>a b. r_last_modified b \<le> r_last_modified a) ?rs"
    by (rule desc_sort_cmp)
  then have ord: "\<forall>i j. i < j \<and> j < length result
                   \<longrightarrow> r_last_modified (?rs ! i) \<ge> r_last_modified (?rs ! j)"
    by (simp add: sorted_wrt_iff_nth_less res)
  from res perm mt ord show ?thesis by blast
qed

theorem list_sorted_by_mtime_desc_witness:
  "fst (GroupLibraries_get demo_env (req ''alice@x.com'' True []) 42 w0)
     = Inr (Response (JList (map (get_group_repo_info demo_env)
         [lib ''lib2'' 300 ''bob@x.com'' None None,
          lib ''sub1'' 200 ''alice@x.com'' (Some ''lib1'') (Some ''/docs''),
          lib ''sub2'' 200 ''alice@x.com'' (Some ''lib1'') (Some ''/pics''),
          lib ''lib1'' 100 ''alice@x.com'' None None])))
   \<and> (\<exists>rs. map (get_group_repo_info demo_env)
              [lib ''lib2'' 300 ''bob@x.com'' None None,
               lib ''sub1'' 200 ''alice@x.com'' (Some ''lib1'') (Some ''/docs''),
               lib ''sub2'' 200 ''alice@x.com'' (Some ''lib1'') (Some ''/pics''),
               lib ''lib1'' 100 ''alice@x.com'' None None]
            = map (get_group_repo_info demo_env) rs
          \<and> mset rs = mset (get_repos_by_group demo_env (service w0) 42)
          \<and> (\<forall>i j. i < j \<and> j < 4 \<longrightarrow> r_last_modified (rs ! i) \<ge> r_last_modified (rs ! j)))"
proof -
  have h: "fst (GroupLibraries_get demo_env (req ''alice@x.com'' True []) 42 w0)
     = Inr (Response (JList (map (get_group_repo_info demo_env)
         [lib ''lib2'' 300 ''bob@x.com'' None None,
          lib ''sub1'' 200 ''alice@x.com'' (Some ''lib1'') (Some ''/docs''),
          lib ''sub2'' 200 ''alice@x.com'' (Some ''lib1'') (Some ''/pics''),
          lib ''lib1'' 100 ''alice@x.com'' None None])))"
    by (simp add: GroupLibraries_get_def api_check_group_def demo sort_cmp_def cmp_def)
  have o: "\<not> is_org_context demo_env (req ''alice@x.com'' True [])"
    by (simp add: demo_env_def)
  from list_sorted_by_mtime_desc [OF h] obtain rs where
    rs: "map (get_group_repo_info demo_env)
              [lib ''lib2'' 300 ''bob@x.com'' None None,
               lib ''sub1'' 200 ''alice@x.com'' (Some ''lib1'') (Some ''/docs''),
               lib ''sub2'' 200 ''alice@x.com'' (Some ''lib1'') (Some ''/pics''),
               lib ''lib1'' 100 ''alice@x.com'' None None]
            = map (get_group_repo_info demo_env) rs"
    and ms: "mset rs = mset (if is_org_context demo_env (req ''alice@x.com'' True [])
                             then get_org_group_repos demo_env (service w0)
                                    (user_org_id (req ''alice@x.com'' True [])) 42
                             else get_repos_by_group demo_env (service w0) 42)"
    and ord: "\<forall>i j. i < j \<and> j < length (map (get_group_repo_info demo_env)
              [lib ''lib2'' 300 ''bob@x.com'' None None,
               lib ''sub1'' 200 ''alice@x.com'' (Some ''lib1'') (Some ''/docs''),
               lib ''sub2'' 200 ''alice@x.com'' (Some ''lib1'') (Some ''/pics''),
               lib ''lib1'' 100 ''alice@x.com'' None None])
                \<longrightarrow> r_last_modified (rs ! i) \<ge> r_last_modified (rs ! j)"
    by blast
  from ms o have ms': "mset rs = mset (get_repos_by_group demo_env (service w0) 42)"
    by simp
  from ord have ord': "\<forall>i j. i < j \<and> j < 4 \<longrightarrow> r_last_modified (rs ! i) \<ge> r_last_modified (rs ! j)"
    by simp
  from h rs ms' ord' show ?thesis by blast
qed

section \<open>Creation\<close>

text \<open>Any failed check ends the handler with an error response and the world as it was.\<close>

lemma post_rejected:
  assumes "\<not> get_group env (service w) group_id
         \<or> \<not> (\<exists>n. data request ''repo_name'' = Some n \<and> n \<noteq> [] \<and> is_valid_dirent_name env n)
         \<or> (truthy (data request ''password'') \<and> \<not> ENABLE_ENCRYPTED_LIBRARY env)
         \<or> dict_get (data request) ''permission'' ''rw'' \<notin> {''r'', ''rw''}
         \<or> \<not> user_can_add_repo request
         \<or> \<not> is_group_member env (service w) group_id (user_username request)"
  shows "\<exists>code msg. GroupLibraries_post env request group_id w = (Inr (api_error code msg), w)"
  using assms
  by (auto simp add: GroupLibraries_post_def api_check_group_def Let_def
           split: option.splits)

lemma post_accepted:
  assumes "fst (GroupLibraries_post env request group_id w) = Inr (Response b)"
  shows "get_group env (service w) group_id
       \<and> (\<exists>n. data request ''repo_name'' = Some n \<and> n \<noteq> [] \<and> is_valid_dirent_name env n)
       \<and> \<not> (truthy (data request ''password'') \<and> \<not> ENABLE_ENCRYPTED_LIBRARY env)
       \<and> dict_get (data request) ''permission'' ''rw'' \<in> {''r'', ''rw''}
       \<and> user_can_add_repo request
       \<and> is_group_member env (service w) group_id (user_username request)"
proof (rule ccontr)
  assume "\<not> ?thesis"
  then have "\<exists>code msg. GroupLibraries_post env request group_id w = (Inr (api_error code msg), w)"
    by (intro post_rejected) blast
  with assms show False by auto
qed

text \<open>
  C4. When a validation check of the create operation fails (the repository name is
  missing, empty or not a valid directory-entry name; a password is supplied while
  encrypted libraries are disabled; the permission is neither \<open>r\<close> nor \<open>rw\<close>) or an
  authorization check fails (the user lacks the can-add-repository capability or is
  not a member of the group), the handler returns an error response and the world is
  the one it started from: no service call, no binding, no \<open>repo_created\<close> signal.
\<close>

theorem create_rejected_no_effects:
  assumes "\<not> (\<exists>n. data request ''repo_name'' = Some n \<and> n \<noteq> [] \<and> is_valid_dirent_name env n)
         \<or> (truthy (data request ''password'') \<and> \<not> ENABLE_ENCRYPTED_LIBRARY env)
         \<or> dict_get (data request) ''permission'' ''rw'' \<notin> {''r'', ''rw''}
         \<or> \<not> user_can_add_repo request
         \<or> \<not> is_group_member env (service w) group_id (user_username request)"
  shows "snd (GroupLibraries_post env request group_id w) = w
       \<and> (\<exists>code msg. fst (GroupLibraries_post env request group_id w) = Inr (api_error code msg))"
  using assms
  by (auto simp add: GroupLibraries_post_def api_check_group_def Let_def
           split: option.splits)

theorem create_rejected_no_effects_witness:
  "dict_get (data (req ''alice@x.com'' True [(''repo_name'', ''Notes''), (''permission'', ''admin'')]))
     ''permission'' ''rw'' \<notin> {''r'', ''rw''}
   \<and> snd (GroupLibraries_post demo_env
            (req ''alice@x.com'' True [(''repo_name'', ''Notes''), (''permission'', ''admin'')]) 42 w0) = w0
   \<and> (\<exists>code msg. fst (GroupLibraries_post demo_env
            (req ''alice@x.com'' True [(''repo_name'', ''Notes''), (''permission'', ''admin'')]) 42 w0)
          = Inr (api_error code msg))
   \<and> \<not> is_group_member demo_env (service w0) 42
         (user_username (req ''mallory@x.com'' True [(''repo_name'', ''Notes'')]))
   \<and> snd (GroupLibraries_post demo_env (req ''mallory@x.com'' True [(''repo_name'', ''Notes'')]) 42 w0) = w0"
proof -
  have p: "dict_get (data (req ''alice@x.com'' True [(''repo_name'', ''Notes''), (''permission'', ''admin'')]))
             ''permission'' ''rw'' \<notin> {''r'', ''rw''}"
    by (simp add: req_def dict_get_def)
  have m: "\<not> is_group_member demo_env (service w0) 42
              (user_username (req ''mallory@x.com'' True [(''repo_name'', ''Notes'')]))"
    by (simp add: demo)
  from p m
    create_rejected_no_effects [of "req ''alice@x.com'' True [(''repo_name'', ''Notes''), (''permission'', ''admin'')]"
      demo_env w0 42]
    create_rejected_no_effects [of "req ''mallory@x.com'' True [(''repo_name'', ''Notes'')]" demo_env w0 42]
  show ?thesis by blast
qed

text \<open>
  C5. A create request for an existing group, with a valid repository name and a
  non-empty password, while \<open>ENABLE_ENCRYPTED_LIBRARY\<close> is off, is answered with
  FeatureDisabled (403) and changes nothing, whatever the user's can-add-repository
  capability and group membership: neither occurs in the hypotheses.
\<close>

theorem create_encrypted_feature_gate:
  assumes "get_group env (service w) group_id"
      and "data request ''repo_name'' = Some repo_name"
      and "repo_name \<noteq> []" and "is_valid_dirent_name env repo_name"
      and "data request ''password'' = Some password" and "password \<noteq> []"
      and "\<not> ENABLE_ENCRYPTED_LIBRARY env"
  shows "GroupLibraries_post env request group_id w = (Inr FeatureDisabled, w)"
  using assms
  by (simp add: GroupLibraries_post_def api_check_group_def FeatureDisabled_def)

theorem create_encrypted_feature_gate_witness:
  "\<not> user_can_add_repo (req ''mallory@x.com'' False [(''repo_name'', ''Notes''), (''password'', ''s3cret'')])
   \<and> \<not> is_group_member demo_env (service w0) 42 ''mallory@x.com''
   \<and> GroupLibraries_post demo_env
        (req ''mallory@x.com'' False [(''repo_name'', ''Notes''), (''password'', ''s3cret'')]) 42 w0
       = (Inr FeatureDisabled, w0)
   \<and> GroupLibraries_post demo_env
        (req ''alice@x.com'' True [(''repo_name'', ''Notes''), (''password'', ''s3cret'')]) 42 w0
       = (Inr FeatureDisabled, w0)"
proof -
  have g: "get_group demo_env (service w0) 42"
    by (simp add: demo)
  have v: "is_valid_dirent_name demo_env ''Notes''" and e: "\<not> ENABLE_ENCRYPTED_LIBRARY demo_env"
    by (simp_all add: demo)
  have c: "\<not> user_can_add_repo (req ''mallory@x.com'' False [(''repo_name'', ''Notes''), (''password'', ''s3cret'')])"
    and m: "\<not> is_group_member demo_env (service w0) 42 ''mallory@x.com''"
    by (simp_all add: demo)
  have 1: "GroupLibraries_post demo_env
        (req ''mallory@x.com'' False [(''repo_name'', ''Notes''), (''password'', ''s3cret'')]) 42 w0
       = (Inr FeatureDisabled, w0)"
    by (rule create_encrypted_feature_gate [OF g _ _ v _ _ e, of _ "''s3cret''"])
       (simp_all add: req_def)
  have 2: "GroupLibraries_post demo_env
        (req ''alice@x.com'' True [(''repo_name'', ''Notes''), (''password'', ''s3cret'')]) 42 w0
       = (Inr FeatureDisabled, w0)"
    by (rule create_encrypted_feature_gate [OF g _ _ v _ _ e, of _ "''s3cret''"])
       (simp_all add: req_def)
  from c m 1 2 show ?thesis by blast
qed

text \<open>
  C6 (as amended). The response of a successful create operation is a dictionary
  whose owner identifier is the acting user's identifier, and whose modifier
  identifier is the \<open>last_modifier\<close> of the repository record that the service
  returns for the new repository id after the \<open>repo_created\<close> signal was sent.
\<close>

theorem create_response_owner_and_modifier:
  assumes "fst (GroupLibraries_post env request group_id w) = Inr (Response b)"
  shows "\<exists>d rid repo.
           b = JDict d
         \<and> d ''owner_email'' = Some (JStr (user_username request))
         \<and> (\<exists>org n t. last (calls (snd (GroupLibraries_post env request group_id w)))
                          = Repo_created org (user_username request) rid n t)
         \<and> get_repo env (service (snd (GroupLibraries_post env request group_id w))) rid = Some repo
         \<and> d ''repo_id'' = Some (JStr (r_id repo))
         \<and> d ''modifier_email'' = Some (JStr (r_last_modifier repo))"
proof -
  from post_accepted [OF assms] obtain n where
    ok: "get_group env (service w) group_id" "data request ''repo_name'' = Some n" "n \<noteq> []"
        "is_valid_dirent_name env n"
        "\<not> (truthy (data request ''password'') \<and> \<not> ENABLE_ENCRYPTED_LIBRARY env)"
        "dict_get (data request) ''permission'' ''rw'' \<in> {''r'', ''rw''}"
        "user_can_add_repo request"
        "is_group_member env (service w) group_id (user_username request)"
    by blast
  show ?thesis
  proof (cases "is_org_context env request")
    case True
    with assms ok show ?thesis
      by (auto simp add: GroupLibraries_post_def api_check_group_def Let_def invoke_def
               split: option.splits prod.splits)
  next
    case False
    with assms ok show ?thesis
      by (auto simp add: GroupLibraries_post_def api_check_group_def Let_def invoke_def
               split: option.splits prod.splits)
  qed
qed

theorem create_response_owner_and_modifier_witness:
  "fst (GroupLibraries_post demo_env
          (req ''alice@x.com'' True [(''repo_name'', ''Notes''), (''permission'', ''rw'')]) 42 w0)
     = Inr (Response (JDict
            [''repo_id'' \<mapsto> JStr ''id-Notes'',
             ''repo_name'' \<mapsto> JStr ''Notes'',
             ''mtime'' \<mapsto> JStr ''later'',
             ''permission'' \<mapsto> JStr ''rw'',
             ''size'' \<mapsto> JInt 0,
             ''encrypted'' \<mapsto> JBool False,
             ''owner_email'' \<mapsto> JStr ''alice@x.com'',
             ''owner_name'' \<mapsto> JStr ''alice'',
             ''owner_contact_name'' \<mapsto> JStr ''alice@x.com'',
             ''modifier_email'' \<mapsto> JStr ''alice@x.com'',
             ''modifier_name'' \<mapsto> JStr ''alice'',
             ''modifier_contact_email'' \<mapsto> JStr ''alice@x.com'']))
   \<and> (\<exists>d rid repo.
         d ''owner_email'' = Some (JStr ''alice@x.com'')
       \<and> get_repo demo_env (service (snd (GroupLibraries_post demo_env
            (req ''alice@x.com'' True [(''repo_name'', ''Notes''), (''permission'', ''rw'')]) 42 w0))) rid
           = Some repo
       \<and> d ''modifier_email'' = Some (JStr (r_last_modifier repo)))"
proof -
  have h: "fst (GroupLibraries_post demo_env
          (req ''alice@x.com'' True [(''repo_name'', ''Notes''), (''permission'', ''rw'')]) 42 w0)
     = Inr (Response (JDict
            [''repo_id'' \<mapsto> JStr ''id-Notes'',
             ''repo_name'' \<mapsto> JStr ''Notes'',
             ''mtime'' \<mapsto> JStr ''later'',
             ''permission'' \<mapsto> JStr ''rw'',
             ''size'' \<mapsto> JInt 0,
             ''encrypted'' \<mapsto> JBool False,
             ''owner_email'' \<mapsto> JStr ''alice@x.com'',
             ''owner_name'' \<mapsto> JStr ''alice'',
             ''owner_contact_name'' \<mapsto> JStr ''alice@x.com'',
             ''modifier_email'' \<mapsto> JStr ''alice@x.com'',
             ''modifier_name'' \<mapsto> JStr ''alice'',
             ''modifier_contact_email'' \<mapsto> JStr ''alice@x.com'']))"
    by (simp add: GroupLibraries_post_def handlers demo Let_def)
  have u: "user_username (req ''alice@x.com'' True [(''repo_name'', ''Notes''), (''permission'', ''rw'')])
             = ''alice@x.com''"
    by (simp add: req_def)
  from create_response_owner_and_modifier [OF h] u
  have "\<exists>d rid repo.
         d ''owner_email'' = Some (JStr ''alice@x.com'')
       \<and> get_repo demo_env (service (snd (GroupLibraries_post demo_env
            (req ''alice@x.com'' True [(''repo_name'', ''Notes''), (''permission'', ''rw'')]) 42 w0))) rid
           = Some repo
       \<and> d ''modifier_email'' = Some (JStr (r_last_modifier repo))"
    by metis
  with h show ?thesis by (rule conjI)
qed

text \<open>
  The claim as the specification words it (owner and modifier both the acting user)
  fails on the service in which a receiver of \<open>repo_created\<close> touches the new library:
  bob's create succeeds, the owner is bob, the modifier is the system account.
\<close>

theorem create_modifier_counterexample:
  "response_field (GroupLibraries_post template_env
       (req ''bob@x.com'' True [(''repo_name'', ''Notes'')]) 42 w0) ''owner_email''
     = Some (JStr (user_username (req ''bob@x.com'' True [(''repo_name'', ''Notes'')])))
   \<and> response_field (GroupLibraries_post template_env
       (req ''bob@x.com'' True [(''repo_name'', ''Notes'')]) 42 w0) ''modifier_email''
     = Some (JStr ''system'')
   \<and> response_field (GroupLibraries_post template_env
       (req ''bob@x.com'' True [(''repo_name'', ''Notes'')]) 42 w0) ''modifier_email''
     \<noteq> Some (JStr (user_username (req ''bob@x.com'' True [(''repo_name'', ''Notes'')])))"
  by (simp add: response_field_def GroupLibraries_post_def handlers demo Let_def)

section \<open>Deletion\<close>

text \<open>
  The handler past its two guards: with the group and the repository present and one of
  the three grants held, it unbinds, deletes the share permission rows, and then
  either faults on the second \<open>get_repo\<close> or sends the audit message and succeeds.
\<close>

lemma delete_authorized:
  assumes "get_group env (service w) group_id"
      and "get_repo env (service w) repo_id = Some repo"
      and "is_group_admin env (service w) group_id (user_username request)
           \<or> get_repo_owner env (service w) repo_id = Some (user_username request)
           \<or> is_repo_admin env (service w) (share_perms w) (user_username request) repo_id"
  shows "GroupLibrary_delete env request group_id repo_id w =
     (let w2 = \<lparr>service = unbound env request group_id repo_id (service w),
                share_perms = filter (\<lambda>(r, g, p). \<not> (r = repo_id \<and> g = group_id)) (share_perms w),
                calls = calls w @ [unbind_call env request group_id repo_id (service w),
                                   Delete_share_permission repo_id group_id]\<rparr>
      in case get_repo env (service w2) repo_id of
           None \<Rightarrow> (Inl AttributeError, w2)
         | Some repo' \<Rightarrow>
             (Inr (Response (JDict [''success'' \<mapsto> JBool True])),
              w2\<lparr>calls := calls w2 @
                   [Send_perm_audit_msg ''delete-repo-perm'' (user_username request) group_id
                      (py_or (r_origin_repo_id repo') repo_id)
                      (py_or (r_origin_path repo') ''/'') '''']\<rparr>))"
  using assms
  by (auto simp add: GroupLibrary_delete_def handlers Let_def unbound_def unbind_call_def
           split: option.splits)

lemma delete_rejected:
  assumes "\<not> get_group env (service w) group_id
         \<or> get_repo env (service w) repo_id = None
         \<or> \<not> (is_group_admin env (service w) group_id (user_username request)
              \<or> get_repo_owner env (service w) repo_id = Some (user_username request)
              \<or> is_repo_admin env (service w) (share_perms w) (user_username request) repo_id)"
  shows "\<exists>code msg. GroupLibrary_delete env request group_id repo_id w = (Inr (api_error code msg), w)"
  using assms
  by (auto simp add: GroupLibrary_delete_def api_check_group_def Let_def split: option.splits)

lemma is_unbind_unbind_call: "is_unbind (unbind_call env request group_id repo_id s)"
  by (simp add: unbind_call_def)

lemma delete_success:
  assumes "fst (GroupLibrary_delete env request group_id repo_id w) = Inr (Response b)"
  shows "\<exists>repo'. get_repo env (unbound env request group_id repo_id (service w)) repo_id = Some repo'
           \<and> snd (GroupLibrary_delete env request group_id repo_id w) =
               \<lparr>service = unbound env request group_id repo_id (service w),
                share_perms = filter (\<lambda>(r, g, p). \<not> (r = repo_id \<and> g = group_id)) (share_perms w),
                calls = calls w @ [unbind_call env request group_id repo_id (service w),
                                   Delete_share_permission repo_id group_id,
                                   Send_perm_audit_msg ''delete-repo-perm'' (user_username request)
                                     group_id (py_or (r_origin_repo_id repo') repo_id)
                                     (py_or (r_origin_path repo') ''/'') '''']\<rparr>"
proof -
  have ok: "get_group env (service w) group_id
          \<and> get_repo env (service w) repo_id \<noteq> None
          \<and> (is_group_admin env (service w) group_id (user_username request)
              \<or> get_repo_owner env (service w) repo_id = Some (user_username request)
              \<or> is_repo_admin env (service w) (share_perms w) (user_username request) repo_id)"
  proof (rule ccontr)
    assume "\<not> ?thesis"
    then have "\<exists>code msg. GroupLibrary_delete env request group_id repo_id w
                 = (Inr (api_error code msg), w)"
      by (intro delete_rejected) blast
    with assms show False by auto
  qed
  then obtain repo where r: "get_repo env (service w) repo_id = Some repo"
    by blast
  from ok have g: "get_group env (service w) group_id" and
    a: "is_group_admin env (service w) group_id (user_username request)
        \<or> get_repo_owner env (service w) repo_id = Some (user_username request)
        \<or> is_repo_admin env (service w) (share_perms w) (user_username request) repo_id"
    by blast+
  from assms show ?thesis
    unfolding delete_authorized [OF g r a]
    by (auto simp add: Let_def split: option.splits)
qed

text \<open>
  C1. For a group that exists and a repository that exists, the delete operation
  answers PermissionDenied exactly when the acting user is not a group admin of the
  group, is not the repository's recorded owner, and holds no repo-admin grant for
  the repository; if one of the three holds, the answer is not PermissionDenied.
\<close>

theorem delete_denied_iff_no_grant:
  assumes "get_group env (service w) group_id"
      and "get_repo env (service w) repo_id = Some repo"
  shows "fst (GroupLibrary_delete env request group_id repo_id w) = Inr PermissionDenied
         \<longleftrightarrow> \<not> (is_group_admin env (service w) group_id (user_username request)
                \<or> get_repo_owner env (service w) repo_id = Some (user_username request)
                \<or> is_repo_admin env (service w) (share_perms w) (user_username request) repo_id)"
  using assms
  by (simp add: GroupLibrary_delete_def api_check_group_def PermissionDenied_def Let_def
           split: option.splits)

theorem delete_denied_iff_no_grant_witness:
  "get_group demo_env (service w0) 42
   \<and> get_repo demo_env (service w0) ''lib1'' = Some (lib ''lib1'' 100 ''alice@x.com'' None None)
   \<and> fst (GroupLibrary_delete demo_env (req ''bob@x.com'' True []) 42 ''lib1'' w0) = Inr PermissionDenied
   \<and> fst (GroupLibrary_delete demo_env (req ''alice@x.com'' True []) 42 ''lib1'' w0) \<noteq> Inr PermissionDenied
   \<and> fst (GroupLibrary_delete demo_env (req ''carol@x.com'' True []) 42 ''lib1'' w0) \<noteq> Inr PermissionDenied
   \<and> fst (GroupLibrary_delete demo_env (req ''bob@x.com'' True []) 42 ''lib2'' w0) \<noteq> Inr PermissionDenied"
proof -
  have g: "get_group demo_env (service w0) 42"
    by (simp add: demo)
  have r: "get_repo demo_env (service w0) ''lib1'' = Some (lib ''lib1'' 100 ''alice@x.com'' None None)"
    and r2: "get_repo demo_env (service w0) ''lib2'' = Some (lib ''lib2'' 300 ''bob@x.com'' None None)"
    by (simp_all add: demo)
  have bob: "\<not> (is_group_admin demo_env (service w0) 42 (user_username (req ''bob@x.com'' True []))
        \<or> get_repo_owner demo_env (service w0) ''lib1'' = Some (user_username (req ''bob@x.com'' True []))
        \<or> is_repo_admin demo_env (service w0) (share_perms w0) (user_username (req ''bob@x.com'' True [])) ''lib1'')"
    by (simp add: demo)
  have alice: "get_repo_owner demo_env (service w0) ''lib1'' = Some (user_username (req ''alice@x.com'' True []))"
    by (simp add: demo)
  have carol: "is_group_admin demo_env (service w0) 42 (user_username (req ''carol@x.com'' True []))"
    by (simp add: demo)
  have bob2: "is_repo_admin demo_env (service w0) (share_perms w0) (user_username (req ''bob@x.com'' True [])) ''lib2''"
    by (simp add: demo)
  from g r bob alice carol bob2
    delete_denied_iff_no_grant [OF g r, of "req ''bob@x.com'' True []"]
    delete_denied_iff_no_grant [OF g r, of "req ''alice@x.com'' True []"]
    delete_denied_iff_no_grant [OF g r, of "req ''carol@x.com'' True []"]
    delete_denied_iff_no_grant [OF g r2, of "req ''bob@x.com'' True []"]
  show ?thesis by blast
qed

text \<open>
  C7. A successful delete operation emits exactly one permission-audit message, as the
  last of its three calls: event type \<open>delete-repo-perm\<close>, the acting user as actor, the
  group id, the origin repository id of the repository as re-fetched after the
  unbinding (the binding's repository id when that is \<open>None\<close> or empty), the origin
  path (\<open>/\<close> when that is \<open>None\<close> or empty) and an empty detail field.
\<close>

theorem delete_emits_one_audit_msg:
  assumes "fst (GroupLibrary_delete env request group_id repo_id w) = Inr (Response b)"
  shows "\<exists>u repo'.
           get_repo env (service (snd (GroupLibrary_delete env request group_id repo_id w))) repo_id
             = Some repo'
         \<and> is_unbind u
         \<and> calls (snd (GroupLibrary_delete env request group_id repo_id w)) =
             calls w @ [u, Delete_share_permission repo_id group_id,
                        Send_perm_audit_msg ''delete-repo-perm'' (user_username request) group_id
                          (py_or (r_origin_repo_id repo') repo_id)
                          (py_or (r_origin_path repo') ''/'') '''']
         \<and> length (filter is_perm_audit_msg
               (drop (length (calls w))
                  (calls (snd (GroupLibrary_delete env request group_id repo_id w))))) = 1"
proof -
  from delete_success [OF assms] obtain repo' where
    r: "get_repo env (unbound env request group_id repo_id (service w)) repo_id = Some repo'"
    and s: "snd (GroupLibrary_delete env request group_id repo_id w) =
               \<lparr>service = unbound env request group_id repo_id (service w),
                share_perms = filter (\<lambda>(r, g, p). \<not> (r = repo_id \<and> g = group_id)) (share_perms w),
                calls = calls w @ [unbind_call env request group_id repo_id (service w),
                                   Delete_share_permission repo_id group_id,
                                   Send_perm_audit_msg ''delete-repo-perm'' (user_username request)
                                     group_id (py_or (r_origin_repo_id repo') repo_id)
                                     (py_or (r_origin_path repo') ''/'') '''']\<rparr>"
    by blast
  let ?u = "unbind_call env request group_id repo_id (service w)"
  have u: "is_unbind ?u" "\<not> is_perm_audit_msg ?u"
    by (simp_all add: unbind_call_def)
  have 1: "get_repo env (service (snd (GroupLibrary_delete env request group_id repo_id w))) repo_id
             = Some repo'"
    by (simp add: s r)
  have 2: "calls (snd (GroupLibrary_delete env request group_id repo_id w)) =
             calls w @ [?u, Delete_share_permission repo_id group_id,
                        Send_perm_audit_msg ''delete-repo-perm'' (user_username request) group_id
                          (py_or (r_origin_repo_id repo') repo_id)
                          (py_or (r_origin_path repo') ''/'') '''']"
    by (simp add: s)
  have 3: "length (filter is_perm_audit_msg
               (drop (length (calls w))
                  (calls (snd (GroupLibrary_delete env request group_id repo_id w))))) = 1"
    by (simp add: 2 u)
  from 1 2 3 u(1) show ?thesis by blast
qed

theorem delete_emits_one_audit_msg_witness:
  "fst (GroupLibrary_delete demo_env (req ''carol@x.com'' True []) 42 ''sub2'' w0)
     = Inr (Response (JDict [''success'' \<mapsto> JBool True]))
   \<and> calls (snd (GroupLibrary_delete demo_env (req ''carol@x.com'' True []) 42 ''sub2'' w0))
     = [Unset_group_repo ''sub2'' 42 ''carol@x.com'', Delete_share_permission ''sub2'' 42,
        Send_perm_audit_msg ''delete-repo-perm'' ''carol@x.com'' 42 ''lib1'' ''/pics'' '''']
   \<and> fst (GroupLibrary_delete demo_env (req ''alice@x.com'' True []) 42 ''lib1'' w0)
     = Inr (Response (JDict [''success'' \<mapsto> JBool True]))
   \<and> calls (snd (GroupLibrary_delete demo_env (req ''alice@x.com'' True []) 42 ''lib1'' w0))
     = [Unset_group_repo ''lib1'' 42 ''alice@x.com'', Delete_share_permission ''lib1'' 42,
        Send_perm_audit_msg ''delete-repo-perm'' ''alice@x.com'' 42 ''lib1'' ''/'' '''']"
proof -
  have h: "fst (GroupLibrary_delete demo_env (req ''carol@x.com'' True []) 42 ''sub2'' w0)
     = Inr (Response (JDict [''success'' \<mapsto> JBool True]))"
    by (simp add: GroupLibrary_delete_def handlers demo Let_def)
  have k: "fst (GroupLibrary_delete demo_env (req ''alice@x.com'' True []) 42 ''lib1'' w0)
     = Inr (Response (JDict [''success'' \<mapsto> JBool True]))"
    by (simp add: GroupLibrary_delete_def handlers demo Let_def)
  have rh: "get_repo demo_env (service (snd (GroupLibrary_delete demo_env
              (req ''carol@x.com'' True []) 42 ''sub2'' w0))) ''sub2''
            = Some (lib ''sub2'' 200 ''alice@x.com'' (Some ''lib1'') (Some ''/pics''))"
    by (simp add: GroupLibrary_delete_def handlers demo Let_def)
  have rk: "get_repo demo_env (service (snd (GroupLibrary_delete demo_env
              (req ''alice@x.com'' True []) 42 ''lib1'' w0))) ''lib1''
            = Some (lib ''lib1'' 100 ''alice@x.com'' None None)"
    by (simp add: GroupLibrary_delete_def handlers demo Let_def)
  have ch: "calls (snd (GroupLibrary_delete demo_env (req ''carol@x.com'' True []) 42 ''sub2'' w0)) ! 0
            = Unset_group_repo ''sub2'' 42 ''carol@x.com''"
    by (simp add: GroupLibrary_delete_def handlers demo Let_def)
  have ck: "calls (snd (GroupLibrary_delete demo_env (req ''alice@x.com'' True []) 42 ''lib1'' w0)) ! 0
            = Unset_group_repo ''lib1'' 42 ''alice@x.com''"
    by (simp add: GroupLibrary_delete_def handlers demo Let_def)
  from delete_emits_one_audit_msg [OF h] rh ch
  have 1: "calls (snd (GroupLibrary_delete demo_env (req ''carol@x.com'' True []) 42 ''sub2'' w0))
     = [Unset_group_repo ''sub2'' 42 ''carol@x.com'', Delete_share_permission ''sub2'' 42,
        Send_perm_audit_msg ''delete-repo-perm'' ''carol@x.com'' 42 ''lib1'' ''/pics'' '''']"
    by (auto simp add: demo)
  from delete_emits_one_audit_msg [OF k] rk ck
  have 2: "calls (snd (GroupLibrary_delete demo_env (req ''alice@x.com'' True []) 42 ''lib1'' w0))
     = [Unset_group_repo ''lib1'' 42 ''alice@x.com'', Delete_share_permission ''lib1'' 42,
        Send_perm_audit_msg ''delete-repo-perm'' ''alice@x.com'' 42 ''lib1'' ''/'' '''']"
    by (auto simp add: demo)
  from h k 1 2 show ?thesis by blast
qed

text \<open>
  C8. A successful delete operation calls \<open>delete_share_permission\<close> for the
  (repo id, group id) pair directly after the unbinding call; afterwards the
  ExtraGroupsSharePermission table is the table before the request without the rows
  of that pair, so no row references the pair, with or without a live binding.
\<close>

theorem delete_removes_share_permission:
  assumes "fst (GroupLibrary_delete env request group_id repo_id w) = Inr (Response b)"
  shows "(\<exists>u rest. is_unbind u
            \<and> calls (snd (GroupLibrary_delete env request group_id repo_id w))
                = calls w @ [u, Delete_share_permission repo_id group_id] @ rest)
       \<and> share_perms (snd (GroupLibrary_delete env request group_id repo_id w))
           = filter (\<lambda>(r, g, p). \<not> (r = repo_id \<and> g = group_id)) (share_perms w)
       \<and> (\<forall>(r, g, p) \<in> set (share_perms (snd (GroupLibrary_delete env request group_id repo_id w))).
            \<not> (r = repo_id \<and> g = group_id))"
proof -
  from delete_success [OF assms] obtain repo' where
    r: "get_repo env (unbound env request group_id repo_id (service w)) repo_id = Some repo'"
    and s: "snd (GroupLibrary_delete env request group_id repo_id w) =
               \<lparr>service = unbound env request group_id repo_id (service w),
                share_perms = filter (\<lambda>(r, g, p). \<not> (r = repo_id \<and> g = group_id)) (share_perms w),
                calls = calls w @ [unbind_call env request group_id repo_id (service w),
                                   Delete_share_permission repo_id group_id,
                                   Send_perm_audit_msg ''delete-repo-perm'' (user_username request)
                                     group_id (py_or (r_origin_repo_id repo') repo_id)
                                     (py_or (r_origin_path repo') ''/'') '''']\<rparr>"
    by blast
  have "calls (snd (GroupLibrary_delete env request group_id repo_id w))
          = calls w @ [unbind_call env request group_id repo_id (service w),
                       Delete_share_permission repo_id group_id]
              @ [Send_perm_audit_msg ''delete-repo-perm'' (user_username request)
                   group_id (py_or (r_origin_repo_id repo') repo_id)
                   (py_or (r_origin_path repo') ''/'') '''']"
    by (simp add: s)
  with is_unbind_unbind_call [of env request group_id repo_id "service w"]
  have 1: "\<exists>u rest. is_unbind u
            \<and> calls (snd (GroupLibrary_delete env request group_id repo_id w))
                = calls w @ [u, Delete_share_permission repo_id group_id] @ rest"
    by blast
  have 2: "share_perms (snd (GroupLibrary_delete env request group_id repo_id w))
           = filter (\<lambda>(r, g, p). \<not> (r = repo_id \<and> g = group_id)) (share_perms w)"
    by (simp add: s)
  have 3: "\<forall>(r, g, p) \<in> set (share_perms (snd (GroupLibrary_delete env request group_id repo_id w))).
            \<not> (r = repo_id \<and> g = group_id)"
    unfolding 2 by auto
  from 1 2 3 show ?thesis by blast
qed

theorem delete_removes_share_permission_witness:
  "fst (GroupLibrary_delete demo_env (req ''bob@x.com'' True []) 42 ''lib2'' w0)
     = Inr (Response (JDict [''success'' \<mapsto> JBool True]))
   \<and> share_perms w0 = [(''lib2'', 42, ''admin''), (''lib1'', 42, ''rw''), (''lib2'', 7, ''rw'')]
   \<and> share_perms (snd (GroupLibrary_delete demo_env (req ''bob@x.com'' True []) 42 ''lib2'' w0))
     = [(''lib1'', 42, ''rw''), (''lib2'', 7, ''rw'')]
   \<and> filter (\<lambda>(r, g, p). r = ''lib2'' \<and> g = 42)
        (share_perms (snd (GroupLibrary_delete demo_env (req ''bob@x.com'' True []) 42 ''lib2'' w0)))
     = []"
proof -
  have h: "fst (GroupLibrary_delete demo_env (req ''bob@x.com'' True []) 42 ''lib2'' w0)
     = Inr (Response (JDict [''success'' \<mapsto> JBool True]))"
    by (simp add: GroupLibrary_delete_def handlers demo Let_def)
  have t: "share_perms w0 = [(''lib2'', 42, ''admin''), (''lib1'', 42, ''rw''), (''lib2'', 7, ''rw'')]"
    by (simp add: w0_def)
  from delete_removes_share_permission [OF h]
  have 1: "share_perms (snd (GroupLibrary_delete demo_env (req ''bob@x.com'' True []) 42 ''lib2'' w0))
           = filter (\<lambda>(r, g, p). \<not> (r = ''lib2'' \<and> g = 42)) (share_perms w0)"
    and 2: "\<forall>(r, g, p) \<in> set (share_perms (snd (GroupLibrary_delete demo_env
                                             (req ''bob@x.com'' True []) 42 ''lib2'' w0))).
        \<not> (r = ''lib2'' \<and> g = 42)"
    by blast+
  from 1 have 3: "share_perms (snd (GroupLibrary_delete demo_env (req ''bob@x.com'' True []) 42 ''lib2'' w0))
     = [(''lib1'', 42, ''rw''), (''lib2'', 7, ''rw'')]"
    by (simp add: t)
  from 2 have 4: "filter (\<lambda>(r, g, p). r = ''lib2'' \<and> g = 42)
        (share_perms (snd (GroupLibrary_delete demo_env (req ''bob@x.com'' True []) 42 ''lib2'' w0)))
     = []"
    by (auto simp add: filter_empty_conv)
  from h t 3 4 show ?thesis by blast
qed

text \<open>
  C9. The re-fetch after the unbinding is not guarded. Whenever the group and the
  repository exist, the user is authorized, and \<open>get_repo\<close> on the service state left
  by the unbinding returns nothing, the delete operation returns no response at all,
  neither an error response nor the success acknowledgment: it raises AttributeError,
  after the unbinding call and the share permission deletion, and before any audit
  message.
\<close>

theorem delete_faults_when_refetch_absent:
  assumes "get_group env (service w) group_id"
      and "get_repo env (service w) repo_id = Some repo"
      and "is_group_admin env (service w) group_id (user_username request)
           \<or> get_repo_owner env (service w) repo_id = Some (user_username request)
           \<or> is_repo_admin env (service w) (share_perms w) (user_username request) repo_id"
      and "get_repo env (unbound env request group_id repo_id (service w)) repo_id = None"
  shows "fst (GroupLibrary_delete env request group_id repo_id w) = Inl AttributeError
       \<and> (\<forall>r. fst (GroupLibrary_delete env request group_id repo_id w) \<noteq> Inr r)
       \<and> calls (snd (GroupLibrary_delete env request group_id repo_id w))
           = calls w @ [unbind_call env request group_id repo_id (service w),
                        Delete_share_permission repo_id group_id]"
  unfolding delete_authorized [OF assms(1-3)]
  using assms(4) by (simp add: Let_def)

theorem delete_faults_when_refetch_absent_witness:
  "get_repo demo_env (service w0) ''sub1''
     = Some (lib ''sub1'' 200 ''alice@x.com'' (Some ''lib1'') (Some ''/docs''))
   \<and> get_repo demo_env (unbound demo_env (req ''carol@x.com'' True []) 42 ''sub1'' (service w0)) ''sub1''
     = None
   \<and> fst (GroupLibrary_delete demo_env (req ''carol@x.com'' True []) 42 ''sub1'' w0) = Inl AttributeError
   \<and> calls (snd (GroupLibrary_delete demo_env (req ''carol@x.com'' True []) 42 ''sub1'' w0))
     = [Unset_group_repo ''sub1'' 42 ''carol@x.com'', Delete_share_permission ''sub1'' 42]"
proof -
  have g: "get_group demo_env (service w0) 42"
    by (simp add: demo)
  have r: "get_repo demo_env (service w0) ''sub1''
             = Some (lib ''sub1'' 200 ''alice@x.com'' (Some ''lib1'') (Some ''/docs''))"
    by (simp add: demo)
  have a: "is_group_admin demo_env (service w0) 42 (user_username (req ''carol@x.com'' True []))
           \<or> get_repo_owner demo_env (service w0) ''sub1'' = Some (user_username (req ''carol@x.com'' True []))
           \<or> is_repo_admin demo_env (service w0) (share_perms w0)
                (user_username (req ''carol@x.com'' True [])) ''sub1''"
    by (simp add: demo)
  have n: "get_repo demo_env (unbound demo_env (req ''carol@x.com'' True []) 42 ''sub1'' (service w0)) ''sub1''
             = None"
    by (simp add: unbound_def demo)
  have c: "calls w0 @ [unbind_call demo_env (req ''carol@x.com'' True []) 42 ''sub1'' (service w0),
                       Delete_share_permission ''sub1'' 42]
           = [Unset_group_repo ''sub1'' 42 ''carol@x.com'', Delete_share_permission ''sub1'' 42]"
    by (simp add: unbind_call_def demo)
  from delete_faults_when_refetch_absent [OF g r a n] r n c show ?thesis
    by simp
qed



end
